theory Spec2Isabelle
  imports
    Main
    "HOL-Library.Word"
    "HOL-Library.Signed_Division"
    "HOL-Library.Monad_Syntax"
begin

section \<open>The text decoder of the mllama model (model/mllama/model\_text.go)\<close>

text \<open>
  The Go file builds a forward pass out of calls on three collaborators whose code is
  not part of the file: tensors (\<open>ml.Tensor\<close>), the neural-network modules of
  \<open>ml/nn\<close> and the key/value cache (\<open>model.Cache\<close>). They are parameters of
  the embedding:
  \<^item> \<open>'t\<close> is the type of tensor handles and \<open>'f\<close> the type of \<open>float32\<close>
    values; both stay abstract;
  \<^item> the methods of \<open>ml.Tensor\<close> that the file calls are the fields of the record
    \<open>Tensor_ops\<close>; they are pure (every call returns a new tensor), so the
    \<open>ml.Context\<close> argument is dropped;
  \<^item> a module (\<open>*nn.Linear\<close>, \<open>*nn.RMSNorm\<close>, \<open>*nn.Embedding\<close>) is a pointer:
    \<open>None\<close> is the nil pointer, \<open>Some f\<close> a loaded module with forward function \<open>f\<close>.
  A Go panic (nil dereference, integer division by zero) is the value \<open>None\<close> of the
  function that panics. Failures raised inside a tensor operation are outside the model.
\<close>

subsection \<open>Machine integers and floats\<close>

type_synonym int64 = "64 word"
type_synonym uint32 = "32 word"

text \<open>Go's \<open>/\<close> on \<open>int64\<close>: truncates towards zero, panics on a zero divisor.\<close>

definition int64_div :: "int64 \<Rightarrow> int64 \<Rightarrow> int64 option" where
  "int64_div a b = (if b = 0 then None else Some (word_of_int (sint a sdiv sint b)))"

text \<open>
  The only \<open>float64\<close> value the file computes is
  \<open>1.0/math.Sqrt(float64(headDim))\<close>; it is kept symbolic.
\<close>

datatype float64 = InvSqrt int64

subsection \<open>Tensor operations\<close>

record ('t, 'f) Tensor_ops =
  Dim :: "'t \<Rightarrow> nat \<Rightarrow> int64"
  Reshape :: "'t \<Rightarrow> int64 list \<Rightarrow> 't"
  Rope :: "'t \<Rightarrow> 't \<Rightarrow> 't option \<Rightarrow> uint32 \<Rightarrow> 'f \<Rightarrow> 'f \<Rightarrow> 't"
  Permute :: "'t \<Rightarrow> nat list \<Rightarrow> 't"
  Contiguous :: "'t \<Rightarrow> 't"
  Mulmat :: "'t \<Rightarrow> 't \<Rightarrow> 't"
  Scale :: "'t \<Rightarrow> float64 \<Rightarrow> 't"
  Add :: "'t \<Rightarrow> 't \<Rightarrow> 't"
  Mul :: "'t \<Rightarrow> 't \<Rightarrow> 't"
  Softmax :: "'t \<Rightarrow> 't"
  SILU :: "'t \<Rightarrow> 't"
  Tanh :: "'t \<Rightarrow> 't"

subsection \<open>Modules of ml/nn\<close>

type_synonym 't Linear = "('t \<Rightarrow> 't) option"
type_synonym ('t, 'f) RMSNorm = "('t \<Rightarrow> 'f \<Rightarrow> 't) option"
type_synonym 't Embedding = "('t \<Rightarrow> 't) option"

definition Linear_Forward :: "'t Linear \<Rightarrow> 't \<Rightarrow> 't option" where
  "Linear_Forward m t = (case m of None \<Rightarrow> None | Some f \<Rightarrow> Some (f t))"

definition RMSNorm_Forward :: "('t, 'f) RMSNorm \<Rightarrow> 't \<Rightarrow> 'f \<Rightarrow> 't option" where
  "RMSNorm_Forward m t e = (case m of None \<Rightarrow> None | Some f \<Rightarrow> Some (f t e))"

definition Embedding_Forward :: "'t Embedding \<Rightarrow> 't \<Rightarrow> 't option" where
  "Embedding_Forward m t = (case m of None \<Rightarrow> None | Some f \<Rightarrow> Some (f t))"

subsection \<open>The key/value cache\<close>

text \<open>
  Modelled from the spec: \<open>model.Cache\<close>, whose code is not in the file. The cache is
  partitioned per decoder layer: \<open>slices c i\<close> is the state of the slice of layer
  \<open>i\<close>. \<open>Sub(i)\<close> yields the slice owned by layer \<open>i\<close>; the model keeps the
  indices requested so far in \<open>subs\<close>, in call order. \<open>Put\<close> on a slice stores the
  key and value of the current positions in that slice and returns the accumulated key and
  value; what it stores and returns is the parameter \<open>PutFn\<close>, a function of the
  slice state (the \<open>cache.Options\<close> argument of the call is a field of the same cache).
\<close>

record ('t, 'c) Cache =
  slices :: "nat \<Rightarrow> 'c"
  PutFn :: "'c \<Rightarrow> 't \<Rightarrow> 't \<Rightarrow> ('t \<times> 't) \<times> 'c"
  subs :: "nat list"

type_synonym ('t, 'c) CacheSlice = "nat \<times> ('t, 'c) Cache"

definition Cache_Sub :: "('t, 'c) Cache \<Rightarrow> nat \<Rightarrow> ('t, 'c) CacheSlice" where
  "Cache_Sub c i = (i, c\<lparr>subs := subs c @ [i]\<rparr>)"

definition Cache_Put ::
  "('t, 'c) CacheSlice \<Rightarrow> 't \<Rightarrow> 't \<Rightarrow> ('t \<times> 't) \<times> ('t, 'c) Cache" where
  "Cache_Put cache key val =
     (case cache of (i, c) \<Rightarrow>
        (case PutFn c (slices c i) key val of
           (kv, s) \<Rightarrow> (kv, c\<lparr>slices := (slices c)(i := s)\<rparr>)))"

subsection \<open>Options\<close>

record ('t, 'f) TextModelOptions =
  RopeFactors :: "'t option"
  hiddenSize :: int64
  numHeads :: int64
  numKVHeads :: int64
  eps :: 'f
  ropeBase :: 'f
  ropeScale :: 'f
  ropeDim :: uint32
  crossAttentionLayers :: "uint32 list"

subsection \<open>Self-attention\<close>

record 't TextSelfAttention =
  Query :: "'t Linear"
  Key :: "'t Linear"
  Value :: "'t Linear"
  Output :: "'t Linear"

definition TextSelfAttention_Forward ::
  "('t, 'f) Tensor_ops \<Rightarrow> 't TextSelfAttention \<Rightarrow> 't \<Rightarrow> 't \<Rightarrow> 't option \<Rightarrow>
   ('t, 'c) CacheSlice \<Rightarrow> ('t, 'f) TextModelOptions \<Rightarrow> ('t \<times> ('t, 'c) Cache) option" where
  "TextSelfAttention_Forward be sa hiddenState positions mask' cache opts = do {
     let batchSize = Dim be hiddenState 1;
     headDim \<leftarrow> int64_div (hiddenSize opts) (numHeads opts);

     query \<leftarrow> Linear_Forward (TextSelfAttention.Query sa) hiddenState;
     let query = Reshape be query [headDim, numHeads opts, batchSize];
     let query = Rope be query positions (RopeFactors opts) (ropeDim opts) (ropeBase opts) (ropeScale opts);

     key \<leftarrow> Linear_Forward (TextSelfAttention.Key sa) hiddenState;
     let key = Reshape be key [headDim, numKVHeads opts, batchSize];
     let key = Rope be key positions (RopeFactors opts) (ropeDim opts) (ropeBase opts) (ropeScale opts);

     val \<leftarrow> Linear_Forward (TextSelfAttention.Value sa) hiddenState;
     let val = Reshape be val [headDim, numKVHeads opts, batchSize];

     let ((key, val), cache') = Cache_Put cache key val;

     let query = Contiguous be (Permute be query [0, 2, 1, 3]);
     let key = Contiguous be (Permute be key [0, 2, 1, 3]);
     let val = Contiguous be (Permute be val [1, 2, 0, 3]);

     let scores = Mulmat be key query;
     let scores = Scale be scores (InvSqrt headDim);

     let scores = (case mask' of None \<Rightarrow> scores | Some m \<Rightarrow> Add be scores m);

     let scores = Softmax be scores;

     let attention = Mulmat be val scores;
     let attention = Contiguous be (Permute be attention [0, 2, 1, 3]);
     let attention = Reshape be attention [hiddenSize opts, batchSize];

     out \<leftarrow> Linear_Forward (TextSelfAttention.Output sa) attention;
     Some (out, cache')
   }"

subsection \<open>Feed-forward\<close>

record 't TextMLP =
  Up :: "'t Linear"
  Down :: "'t Linear"
  Gate :: "'t Linear"

definition TextMLP_Forward ::
  "('t, 'f) Tensor_ops \<Rightarrow> 't TextMLP \<Rightarrow> 't \<Rightarrow> ('t, 'f) TextModelOptions \<Rightarrow> 't option" where
  "TextMLP_Forward be mlp hiddenState opts = do {
     gate \<leftarrow> Linear_Forward (Gate mlp) hiddenState;
     up \<leftarrow> Linear_Forward (Up mlp) hiddenState;
     let hiddenState = Mul be (SILU be gate) up;
     Linear_Forward (Down mlp) hiddenState
   }"

subsection \<open>Self-attention decoder layer\<close>

record ('t, 'f) TextSelfAttentionDecoderLayer =
  AttentionNorm :: "('t, 'f) RMSNorm"
  SelfAttention :: "'t TextSelfAttention option"
  MLPNorm :: "('t, 'f) RMSNorm"
  MLP :: "'t TextMLP option"

definition TextSelfAttentionDecoderLayer_Forward ::
  "('t, 'f) Tensor_ops \<Rightarrow> ('t, 'f) TextSelfAttentionDecoderLayer \<Rightarrow> 't \<Rightarrow> 't \<Rightarrow>
   't option \<Rightarrow> 't option \<Rightarrow> 't option \<Rightarrow> ('t, 'c) CacheSlice \<Rightarrow>
   ('t, 'f) TextModelOptions \<Rightarrow> ('t \<times> ('t, 'c) Cache) option" where
  "TextSelfAttentionDecoderLayer_Forward be d hiddenState positions mask' uu1 uu2 cache opts = do {
     let residual = hiddenState;

     hiddenState \<leftarrow> RMSNorm_Forward (TextSelfAttentionDecoderLayer.AttentionNorm d) hiddenState (eps opts);
     sa \<leftarrow> SelfAttention d;
     (hiddenState, cache') \<leftarrow> TextSelfAttention_Forward be sa hiddenState positions mask' cache opts;
     let hiddenState = Add be hiddenState residual;
     let residual = hiddenState;

     hiddenState \<leftarrow> RMSNorm_Forward (TextSelfAttentionDecoderLayer.MLPNorm d) hiddenState (eps opts);
     mlp \<leftarrow> TextSelfAttentionDecoderLayer.MLP d;
     hiddenState \<leftarrow> TextMLP_Forward be mlp hiddenState opts;
     Some (Add be hiddenState residual, cache')
   }"

subsection \<open>Cross-attention\<close>

record ('t, 'f) TextCrossAttention =
  QueryNorm :: "('t, 'f) RMSNorm"
  Query :: "'t Linear"
  KeyNorm :: "('t, 'f) RMSNorm"
  Key :: "'t Linear"
  Value :: "'t Linear"
  Output :: "'t Linear"

text \<open>
  \<open>crossAttentionStates\<close> is a tensor that may be nil; \<open>crossAttentionStates.Dim(1)\<close>
  on nil panics. The function calls no method of its \<open>cache\<close> argument and returns a
  tensor only.
\<close>

definition TextCrossAttention_Forward ::
  "('t, 'f) Tensor_ops \<Rightarrow> ('t, 'f) TextCrossAttention \<Rightarrow> 't \<Rightarrow> 't option \<Rightarrow>
   ('t, 'c) CacheSlice \<Rightarrow> ('t, 'f) TextModelOptions \<Rightarrow> 't option" where
  "TextCrossAttention_Forward be ca hiddenState crossAttentionStates cache opts = do {
     let batchSize = Dim be hiddenState 1;
     headDim \<leftarrow> int64_div (hiddenSize opts) (numHeads opts);
     states \<leftarrow> crossAttentionStates;
     let numVisionTokens = Dim be states 1;
     let numTiles = Dim be states 2;

     query \<leftarrow> Linear_Forward (TextCrossAttention.Query ca) hiddenState;
     let query = Reshape be query [headDim, numHeads opts, batchSize];
     query \<leftarrow> RMSNorm_Forward (QueryNorm ca) query (eps opts);

     key \<leftarrow> Linear_Forward (TextCrossAttention.Key ca) states;
     let key = Reshape be key [headDim, numKVHeads opts, numVisionTokens * numTiles];
     key \<leftarrow> RMSNorm_Forward (KeyNorm ca) key (eps opts);

     val \<leftarrow> Linear_Forward (TextCrossAttention.Value ca) states;
     let val = Reshape be val [headDim, numKVHeads opts, numVisionTokens * numTiles];

     let query = Contiguous be (Permute be query [0, 2, 1, 3]);
     let key = Contiguous be (Permute be key [0, 2, 1, 3]);
     let val = Contiguous be (Permute be val [1, 2, 0, 3]);

     let scores = Mulmat be key query;
     let scores = Scale be scores (InvSqrt headDim);
     let scores = Softmax be scores;

     let attention = Mulmat be val scores;
     let attention = Contiguous be (Permute be attention [0, 2, 1, 3]);
     let attention = Reshape be attention [hiddenSize opts, batchSize];

     Linear_Forward (TextCrossAttention.Output ca) attention
   }"

subsection \<open>Cross-attention decoder layer\<close>

record ('t, 'f) TextCrossAttentionDecoderLayer =
  AttentionNorm :: "('t, 'f) RMSNorm"
  CrossAttention :: "('t, 'f) TextCrossAttention option"
  AttentionGate :: "'t option"
  MLPNorm :: "('t, 'f) RMSNorm"
  MLP :: "'t TextMLP option"
  MLPGate :: "'t option"

definition TextCrossAttentionDecoderLayer_Forward ::
  "('t, 'f) Tensor_ops \<Rightarrow> ('t, 'f) TextCrossAttentionDecoderLayer \<Rightarrow> 't \<Rightarrow> 't \<Rightarrow>
   't option \<Rightarrow> 't option \<Rightarrow> 't option \<Rightarrow> ('t, 'c) CacheSlice \<Rightarrow>
   ('t, 'f) TextModelOptions \<Rightarrow> ('t \<times> ('t, 'c) Cache) option" where
  "TextCrossAttentionDecoderLayer_Forward be d hiddenState uu1 uu2 crossAttentionStates
       crossAttentionMask cache opts = do {
     let residual = hiddenState;

     hiddenState \<leftarrow> RMSNorm_Forward (TextCrossAttentionDecoderLayer.AttentionNorm d) hiddenState (eps opts);
     ca \<leftarrow> CrossAttention d;
     hiddenState \<leftarrow> TextCrossAttention_Forward be ca hiddenState crossAttentionStates cache opts;
     attentionGate \<leftarrow> AttentionGate d;
     let hiddenState = Mul be hiddenState (Tanh be attentionGate);
     let hiddenState = Add be hiddenState residual;
     let residual = hiddenState;

     hiddenState \<leftarrow> RMSNorm_Forward (TextCrossAttentionDecoderLayer.MLPNorm d) hiddenState (eps opts);
     mlp \<leftarrow> TextCrossAttentionDecoderLayer.MLP d;
     hiddenState \<leftarrow> TextMLP_Forward be mlp hiddenState opts;
     mlpGate \<leftarrow> MLPGate d;
     let hiddenState = Mul be hiddenState (Tanh be mlpGate);
     Some (Add be hiddenState residual, snd cache)
   }"

subsection \<open>The decoder\<close>

text \<open>The interface \<open>TextDecoderLayer\<close> has the two implementations above.\<close>

datatype ('t, 'f) TextDecoderLayer =
    SelfAttentionLayer "('t, 'f) TextSelfAttentionDecoderLayer"
  | CrossAttentionLayer "('t, 'f) TextCrossAttentionDecoderLayer"

fun TextDecoderLayer_Forward ::
  "('t, 'f) Tensor_ops \<Rightarrow> ('t, 'f) TextDecoderLayer \<Rightarrow> 't \<Rightarrow> 't \<Rightarrow>
   't option \<Rightarrow> 't option \<Rightarrow> 't option \<Rightarrow> ('t, 'c) CacheSlice \<Rightarrow>
   ('t, 'f) TextModelOptions \<Rightarrow> ('t \<times> ('t, 'c) Cache) option" where
  "TextDecoderLayer_Forward be (SelfAttentionLayer d) hiddenState positionIDs mask'
       crossAttentionStates crossAttentionMask cache opts =
     TextSelfAttentionDecoderLayer_Forward be d hiddenState positionIDs mask'
       crossAttentionStates crossAttentionMask cache opts"
| "TextDecoderLayer_Forward be (CrossAttentionLayer d) hiddenState positionIDs mask'
       crossAttentionStates crossAttentionMask cache opts =
     TextCrossAttentionDecoderLayer_Forward be d hiddenState positionIDs mask'
       crossAttentionStates crossAttentionMask cache opts"

fun is_cross_attention_layer :: "('t, 'f) TextDecoderLayer \<Rightarrow> bool" where
  "is_cross_attention_layer (SelfAttentionLayer d) = False"
| "is_cross_attention_layer (CrossAttentionLayer d) = True"

record ('t, 'f) TextDecoder =
  Layers :: "('t, 'f) TextDecoderLayer list"

text \<open>
  The \<open>for i, layer := range d.Layers\<close> loop, from index \<open>i\<close> on; \<open>uint32(i)\<close>
  keeps the low 32 bits of the index.
\<close>

fun TextDecoder_loop ::
  "('t, 'f) Tensor_ops \<Rightarrow> 't \<Rightarrow> 't option \<Rightarrow> 't option \<Rightarrow> 't option \<Rightarrow>
   ('t, 'f) TextModelOptions \<Rightarrow> nat \<Rightarrow> ('t, 'f) TextDecoderLayer list \<Rightarrow> 't \<Rightarrow>
   ('t, 'c) Cache \<Rightarrow> ('t \<times> ('t, 'c) Cache) option" where
  "TextDecoder_loop be positionIDs mask' crossAttentionStates crossAttentionMask opts i []
       hiddenState cache = Some (hiddenState, cache)"
| "TextDecoder_loop be positionIDs mask' crossAttentionStates crossAttentionMask opts i
       (layer # rest) hiddenState cache =
     (if (word_of_nat i :: uint32) \<notin> set (crossAttentionLayers opts)
         \<or> crossAttentionStates \<noteq> None
      then do {
        (hiddenState, cache) \<leftarrow> TextDecoderLayer_Forward be layer hiddenState positionIDs mask'
           crossAttentionStates crossAttentionMask (Cache_Sub cache i) opts;
        TextDecoder_loop be positionIDs mask' crossAttentionStates crossAttentionMask opts
          (Suc i) rest hiddenState cache
      }
      else TextDecoder_loop be positionIDs mask' crossAttentionStates crossAttentionMask opts
          (Suc i) rest hiddenState cache)"

definition TextDecoder_Forward ::
  "('t, 'f) Tensor_ops \<Rightarrow> ('t, 'f) TextDecoder \<Rightarrow> 't \<Rightarrow> 't \<Rightarrow> 't option \<Rightarrow>
   't option \<Rightarrow> 't option \<Rightarrow> ('t, 'c) Cache \<Rightarrow> ('t, 'f) TextModelOptions \<Rightarrow>
   ('t \<times> ('t, 'c) Cache) option" where
  "TextDecoder_Forward be d hiddenState positionIDs mask' crossAttentionStates
       crossAttentionMask cache opts =
     TextDecoder_loop be positionIDs mask' crossAttentionStates crossAttentionMask opts 0
       (Layers d) hiddenState cache"

subsection \<open>The text model\<close>

record ('t, 'f) TextModel =
  TokenEmbedding :: "'t Embedding"
  Transformer :: "('t, 'f) TextDecoder"
  OutputNorm :: "('t, 'f) RMSNorm"
  Output :: "'t Linear"
  Options :: "('t, 'f) TextModelOptions"

definition TextModel_Forward ::
  "('t, 'f) Tensor_ops \<Rightarrow> ('t, 'f) TextModel \<Rightarrow> 't \<Rightarrow> 't \<Rightarrow> 't option \<Rightarrow>
   't option \<Rightarrow> 't option \<Rightarrow> ('t, 'c) Cache \<Rightarrow> ('t \<times> ('t, 'c) Cache) option" where
  "TextModel_Forward be m inputIDs positionIDs mask' crossAttentionStates crossAttentionMask
       cache = do {
     hiddenState \<leftarrow> Embedding_Forward (TokenEmbedding m) inputIDs;
     (hiddenState, cache') \<leftarrow> TextDecoder_Forward be (Transformer m) hiddenState positionIDs
        mask' crossAttentionStates crossAttentionMask cache (Options m);
     hiddenState \<leftarrow> RMSNorm_Forward (OutputNorm m) hiddenState (eps (Options m));
     out \<leftarrow> Linear_Forward (TextModel.Output m) hiddenState;
     Some (out, cache')
   }"

subsection \<open>Construction\<close>

text \<open>
  The interface \<open>ml.Config\<close> is a parameter: its methods take a key and the optional
  default values of the variadic argument. The literal \<open>1\<close> of type \<open>float32\<close>
  is the \<open>1\<close> of \<open>'f\<close>. \<open>range c.Uint("block_count")\<close> runs \<open>i\<close> over the
  \<open>uint32\<close> values below the block count; the structs \<open>&T{}\<close> have every field nil.
\<close>

record 'f Config =
  Uint :: "string \<Rightarrow> uint32 list \<Rightarrow> uint32"
  Float :: "string \<Rightarrow> 'f list \<Rightarrow> 'f"
  Uints :: "string \<Rightarrow> uint32 list list \<Rightarrow> uint32 list"

definition newTextModel :: "('f::one) Config \<Rightarrow> ('t, 'f) TextModel" where
  "newTextModel c =
     (let decoderLayers =
        map (\<lambda>i. if i \<in> set (Uints c ''attention.cross_attention_layers'' [])
                  then CrossAttentionLayer
                         \<lparr>AttentionNorm = None, CrossAttention = None, AttentionGate = None,
                          MLPNorm = None, MLP = None, MLPGate = None\<rparr>
                  else SelfAttentionLayer
                         \<lparr>TextSelfAttentionDecoderLayer.AttentionNorm = None,
                          SelfAttention = None,
                          TextSelfAttentionDecoderLayer.MLPNorm = None,
                          TextSelfAttentionDecoderLayer.MLP = None\<rparr>)
          (map word_of_nat [0..<unat (Uint c ''block_count'' [])])
      in \<lparr>TokenEmbedding = None,
          Transformer = \<lparr>Layers = decoderLayers\<rparr>,
          OutputNorm = None,
          Output = None,
          Options =
            \<lparr>RopeFactors = None,
             hiddenSize = ucast (Uint c ''embedding_length'' []),
             numHeads = ucast (Uint c ''attention.head_count'' []),
             numKVHeads = ucast (Uint c ''attention.head_count_kv'' []),
             eps = Float c ''attention.layer_norm_rms_epsilon'' [],
             ropeBase = Float c ''rope.freq_base'' [],
             ropeScale = Float c ''rope.freq_scale'' [1],
             ropeDim = Uint c ''rope.dimension_count'' [],
             crossAttentionLayers = Uints c ''attention.cross_attention_layers'' []\<rparr>\<rparr>)"

subsection \<open>The stages of the self-attention unit\<close>

text \<open>
  The values of the local variables of \<open>TextSelfAttention.Forward\<close>, as expressions in
  the loaded projections \<open>wq\<close>, \<open>wk\<close>, \<open>wv\<close>, \<open>wo\<close>: the query, key and value
  handed to the cache (lines 23 to 32), the scores that go into the softmax (lines 36, 37
  and 40 to 45) and the output computed from the softmaxed scores (lines 38 and 49 to 53).
\<close>

definition self_attention_query ::
  "('t, 'f) Tensor_ops \<Rightarrow> ('t \<Rightarrow> 't) \<Rightarrow> ('t, 'f) TextModelOptions \<Rightarrow> int64 \<Rightarrow> 't \<Rightarrow> 't \<Rightarrow> 't" where
  "self_attention_query be wq opts headDim hiddenState positions =
     Rope be (Reshape be (wq hiddenState) [headDim, numHeads opts, Dim be hiddenState 1])
       positions (RopeFactors opts) (ropeDim opts) (ropeBase opts) (ropeScale opts)"

definition self_attention_key ::
  "('t, 'f) Tensor_ops \<Rightarrow> ('t \<Rightarrow> 't) \<Rightarrow> ('t, 'f) TextModelOptions \<Rightarrow> int64 \<Rightarrow> 't \<Rightarrow> 't \<Rightarrow> 't" where
  "self_attention_key be wk opts headDim hiddenState positions =
     Rope be (Reshape be (wk hiddenState) [headDim, numKVHeads opts, Dim be hiddenState 1])
       positions (RopeFactors opts) (ropeDim opts) (ropeBase opts) (ropeScale opts)"

definition self_attention_value ::
  "('t, 'f) Tensor_ops \<Rightarrow> ('t \<Rightarrow> 't) \<Rightarrow> ('t, 'f) TextModelOptions \<Rightarrow> int64 \<Rightarrow> 't \<Rightarrow> 't" where
  "self_attention_value be wv opts headDim hiddenState =
     Reshape be (wv hiddenState) [headDim, numKVHeads opts, Dim be hiddenState 1]"

definition attention_scores ::
  "('t, 'f) Tensor_ops \<Rightarrow> int64 \<Rightarrow> 't option \<Rightarrow> 't \<Rightarrow> 't \<Rightarrow> 't" where
  "attention_scores be headDim mask' query key =
     (let scores = Scale be (Mulmat be (Contiguous be (Permute be key [0, 2, 1, 3]))
                                       (Contiguous be (Permute be query [0, 2, 1, 3])))
                     (InvSqrt headDim)
      in case mask' of None \<Rightarrow> scores | Some m \<Rightarrow> Add be scores m)"

definition attention_output ::
  "('t, 'f) Tensor_ops \<Rightarrow> ('t \<Rightarrow> 't) \<Rightarrow> ('t, 'f) TextModelOptions \<Rightarrow> 't \<Rightarrow> 't \<Rightarrow> 't \<Rightarrow> 't" where
  "attention_output be wo opts hiddenState scores val =
     wo (Reshape be
           (Contiguous be
              (Permute be (Mulmat be (Contiguous be (Permute be val [1, 2, 0, 3])) scores)
                 [0, 2, 1, 3]))
           [hiddenSize opts, Dim be hiddenState 1])"

subsection \<open>Valid geometry, in the words of the specification\<close>

text \<open>
  The specification calls a geometry valid when \<open>headDim * numHeads = hiddenSize\<close>, with
  \<open>headDim = hiddenSize / numHeads\<close>, and \<open>numHeads % numKVHeads = 0\<close>.
\<close>

definition valid_geometry :: "('t, 'f) TextModelOptions \<Rightarrow> bool" where
  "valid_geometry opts \<longleftrightarrow>
     numHeads opts \<noteq> 0 \<and> numKVHeads opts \<noteq> 0 \<and>
     (unat (hiddenSize opts) div unat (numHeads opts)) * unat (numHeads opts)
        = unat (hiddenSize opts) \<and>
     unat (numHeads opts) mod unat (numKVHeads opts) = 0"

subsection \<open>A worked example\<close>

text \<open>
  A small instance on which the theorems below are exercised: tensors are integers, the
  cache slice of a layer is the list of the key/value pairs put so far, and \<open>Put\<close>
  returns the sums over the slice. Layer 0 is a self-attention layer and layer 1 a
  cross-attention layer whose two gates are zero.
\<close>

definition ex_ops :: "(int, int) Tensor_ops" where
  "ex_ops = \<lparr>Dim = (\<lambda>t n. 1), Reshape = (\<lambda>t ds. t), Rope = (\<lambda>t p f d b s. t + p),
             Permute = (\<lambda>t axes. t), Contiguous = (\<lambda>t. t), Mulmat = (\<lambda>a b. a * b),
             Scale = (\<lambda>t f. t), Add = (\<lambda>a b. a + b), Mul = (\<lambda>a b. a * b),
             Softmax = (\<lambda>t. 1), SILU = (\<lambda>t. t), Tanh = (\<lambda>t. t)\<rparr>"

definition ex_cache :: "(int, (int \<times> int) list) Cache" where
  "ex_cache = \<lparr>slices = (\<lambda>i. []),
               PutFn = (\<lambda>s k v. ((sum_list (map fst s) + k, sum_list (map snd s) + v),
                                   s @ [(k, v)])),
               subs = []\<rparr>"

definition ex_opts :: "(int, int) TextModelOptions" where
  "ex_opts = \<lparr>RopeFactors = None, hiddenSize = 8, numHeads = 4, numKVHeads = 2, eps = 0,
              ropeBase = 1, ropeScale = 1, ropeDim = 2, crossAttentionLayers = [1]\<rparr>"

definition ex_sa :: "int TextSelfAttention" where
  "ex_sa = \<lparr>TextSelfAttention.Query = Some (\<lambda>t. 2 * t),
            TextSelfAttention.Key = Some (\<lambda>t. 3 * t),
            TextSelfAttention.Value = Some (\<lambda>t. t + 1),
            TextSelfAttention.Output = Some (\<lambda>t. t)\<rparr>"

definition ex_mlp :: "int TextMLP" where
  "ex_mlp = \<lparr>Up = Some (\<lambda>t. t + 1), Down = Some (\<lambda>t. 2 * t), Gate = Some (\<lambda>t. t)\<rparr>"

definition ex_ca :: "(int, int) TextCrossAttention" where
  "ex_ca = \<lparr>QueryNorm = Some (\<lambda>t e. t), Query = Some (\<lambda>t. 2 * t),
            KeyNorm = Some (\<lambda>t e. t), Key = Some (\<lambda>t. 3 * t),
            Value = Some (\<lambda>t. t + 1), Output = Some (\<lambda>t. t)\<rparr>"

definition ex_self_layer :: "(int, int) TextSelfAttentionDecoderLayer" where
  "ex_self_layer =
     \<lparr>TextSelfAttentionDecoderLayer.AttentionNorm = Some (\<lambda>t e. t),
      SelfAttention = Some ex_sa,
      TextSelfAttentionDecoderLayer.MLPNorm = Some (\<lambda>t e. t),
      TextSelfAttentionDecoderLayer.MLP = Some ex_mlp\<rparr>"

definition ex_cross_layer :: "(int, int) TextCrossAttentionDecoderLayer" where
  "ex_cross_layer =
     \<lparr>AttentionNorm = Some (\<lambda>t e. t), CrossAttention = Some ex_ca, AttentionGate = Some 0,
      MLPNorm = Some (\<lambda>t e. t), MLP = Some ex_mlp, MLPGate = Some 0\<rparr>"

definition ex_decoder :: "(int, int) TextDecoder" where
  "ex_decoder = \<lparr>Layers = [SelfAttentionLayer ex_self_layer, CrossAttentionLayer ex_cross_layer]\<rparr>"

definition ex_model :: "(int, int) TextModel" where
  "ex_model = \<lparr>TokenEmbedding = Some (\<lambda>t. t), Transformer = ex_decoder,
               OutputNorm = Some (\<lambda>t e. t), Output = Some (\<lambda>t. t), Options = ex_opts\<rparr>"

text \<open>A configuration whose head counts do not divide and whose index list is malformed.\<close>

definition ex_bad_config :: "int Config" where
  "ex_bad_config =
     \<lparr>Uint = (\<lambda>key defaults.
                if key = ''block_count'' then 2
                else if key = ''embedding_length'' then 10
                else if key = ''attention.head_count'' then 3
                else if key = ''attention.head_count_kv'' then 2
                else 0),
      Float = (\<lambda>key defaults. case defaults of [] \<Rightarrow> 0 | x # xs \<Rightarrow> x),
      Uints = (\<lambda>key defaults.
                if key = ''attention.cross_attention_layers'' then [7, 7] else [])\<rparr>"

definition ex_config :: "int Config" where
  "ex_config =
     \<lparr>Uint = (\<lambda>key defaults.
                if key = ''block_count'' then 2
                else if key = ''embedding_length'' then 8
                else if key = ''attention.head_count'' then 4
                else if key = ''attention.head_count_kv'' then 2
                else 0),
      Float = (\<lambda>key defaults. case defaults of [] \<Rightarrow> 0 | x # xs \<Rightarrow> x),
      Uints = (\<lambda>key defaults.
                if key = ''attention.cross_attention_layers'' then [1] else [])\<rparr>"

section \<open>Auxiliary facts\<close>

lemma Linear_Forward_Some: "Linear_Forward (Some f) t = Some (f t)"
  by (simp add: Linear_Forward_def)

lemma RMSNorm_Forward_Some: "RMSNorm_Forward (Some f) t e = Some (f t e)"
  by (simp add: RMSNorm_Forward_def)

lemma self_attention_unfold:
  assumes "TextSelfAttention.Query sa = Some wq" and "TextSelfAttention.Key sa = Some wk"
      and "TextSelfAttention.Value sa = Some wv" and "TextSelfAttention.Output sa = Some wo"
      and "int64_div (hiddenSize opts) (numHeads opts) = Some headDim"
      and "Cache_Put cache (self_attention_key be wk opts headDim h pos)
             (self_attention_value be wv opts headDim h) = ((K, V), cache')"
  shows "TextSelfAttention_Forward be sa h pos m cache opts =
           Some (attention_output be wo opts h
                   (Softmax be (attention_scores be headDim m
                      (self_attention_query be wq opts headDim h pos) K)) V, cache')"
  using assms
  by (simp add: TextSelfAttention_Forward_def Linear_Forward_Some self_attention_key_def
        self_attention_value_def self_attention_query_def attention_scores_def
        attention_output_def Let_def)

lemma self_attention_cache:
  assumes "TextSelfAttention_Forward be sa h pos m (i, c) opts = Some (out, c')"
  shows "\<exists>k v. c' = c\<lparr>slices := (slices c)(i := snd (PutFn c (slices c i) k v))\<rparr>"
proof -
  from assms obtain k v kv s where "PutFn c (slices c i) k v = (kv, s)"
      and "c' = c\<lparr>slices := (slices c)(i := s)\<rparr>"
    by (auto simp add: TextSelfAttention_Forward_def Cache_Put_def Let_def
          split: Option.bind_splits prod.splits)
  then have "c' = c\<lparr>slices := (slices c)(i := snd (PutFn c (slices c i) k v))\<rparr>"
    by simp
  then show ?thesis by blast
qed

lemma layer_cache:
  assumes "TextDecoderLayer_Forward be l h pos m st cm (i, c) opts = Some (h', c')"
  shows "c' = c \<or> (\<exists>k v. c' = c\<lparr>slices := (slices c)(i := snd (PutFn c (slices c i) k v))\<rparr>)"
proof (cases l)
  case (SelfAttentionLayer d)
  with assms obtain x sa out where "TextSelfAttention_Forward be sa x pos m (i, c) opts = Some (out, c')"
    by (auto simp add: TextSelfAttentionDecoderLayer_Forward_def Let_def
          split: Option.bind_splits)
  then show ?thesis by (blast dest: self_attention_cache)
next
  case (CrossAttentionLayer d)
  with assms show ?thesis
    by (auto simp add: TextCrossAttentionDecoderLayer_Forward_def Let_def
          split: Option.bind_splits)
qed


lemma loop_slices:
  assumes "TextDecoder_loop be pos m st cm opts i ls h c = Some (h', c')"
  shows "PutFn c' = PutFn c \<and>
         (\<forall>j. slices c' j = slices c j \<or>
              (i \<le> j \<and> j < i + length ls \<and>
               (word_of_nat j \<notin> set (crossAttentionLayers opts) \<or> st \<noteq> None) \<and>
               (\<exists>k v. slices c' j = snd (PutFn c (slices c j) k v))))"
  using assms
proof (induction ls arbitrary: i h c)
  case Nil
  then show ?case by simp
next
  case (Cons l ls)
  let ?runs = "\<lambda>j. word_of_nat j \<notin> set (crossAttentionLayers opts) \<or> st \<noteq> None"
  show ?case
  proof (cases "?runs i")
    case True
    with Cons.prems obtain h1 c1 where
      layer: "TextDecoderLayer_Forward be l h pos m st cm (i, c\<lparr>subs := subs c @ [i]\<rparr>) opts = Some (h1, c1)"
      and rest: "TextDecoder_loop be pos m st cm opts (Suc i) ls h1 c1 = Some (h', c')"
      by (auto simp add: Cache_Sub_def split: Option.bind_splits)
    have put1: "PutFn c1 = PutFn c"
      and other: "\<And>j. j \<noteq> i \<Longrightarrow> slices c1 j = slices c j"
      using layer_cache [OF layer] by auto
    have own: "slices c1 i = slices c i \<or> (\<exists>k v. slices c1 i = snd (PutFn c (slices c i) k v))"
    proof -
      from layer_cache [OF layer]
      consider "c1 = c\<lparr>subs := subs c @ [i]\<rparr>"
        | k v where "c1 = c\<lparr>subs := subs c @ [i],
                          slices := (slices c)(i := snd (PutFn c (slices c i) k v))\<rparr>"
        by auto
      then show ?thesis
      proof cases
        case 1
        then show ?thesis by simp
      next
        case 2
        then have "slices c1 i = snd (PutFn c (slices c i) k v)" by simp
        then show ?thesis by blast
      qed
    qed
    from Cons.IH [OF rest]
    have put: "PutFn c' = PutFn c1"
      and ih: "\<And>j. slices c' j = slices c1 j \<or>
              (Suc i \<le> j \<and> j < Suc i + length ls \<and> ?runs j \<and>
               (\<exists>k v. slices c' j = snd (PutFn c1 (slices c1 j) k v)))"
      by auto
    show ?thesis
    proof (intro conjI allI)
      show "PutFn c' = PutFn c" using put put1 by simp
    next
      fix j
      show "slices c' j = slices c j \<or>
              (i \<le> j \<and> j < i + length (l # ls) \<and> ?runs j \<and>
               (\<exists>k v. slices c' j = snd (PutFn c (slices c j) k v)))"
      proof (cases "j = i")
        case True
        with ih [of i] have "slices c' j = slices c1 i" by auto
        with own True \<open>?runs i\<close> show ?thesis by auto
      next
        case False
        with ih [of j] other [of j] put1 show ?thesis by auto
      qed
    qed
  next
    case False
    with Cons.prems have rest: "TextDecoder_loop be pos m st cm opts (Suc i) ls h c = Some (h', c')"
      by auto
    from Cons.IH [OF rest] show ?thesis by force
  qed
qed


lemma self_attention_Tanh_unused:
  "TextSelfAttention_Forward (be\<lparr>Tanh := t\<rparr>) sa h pos m cache opts =
   TextSelfAttention_Forward be sa h pos m cache opts"
  by (cases m) (simp_all add: TextSelfAttention_Forward_def)

lemma mlp_Tanh_unused:
  "TextMLP_Forward (be\<lparr>Tanh := t\<rparr>) mlp h opts = TextMLP_Forward be mlp h opts"
  by (simp add: TextMLP_Forward_def)

lemma layer_mask_unused:
  "TextDecoderLayer_Forward be l h p m s cm c opts =
   TextDecoderLayer_Forward be l h p m s None c opts"
  by (cases l)
     (simp_all add: TextSelfAttentionDecoderLayer_Forward_def
        TextCrossAttentionDecoderLayer_Forward_def)

lemma loop_mask_unused:
  "TextDecoder_loop be p m s cm opts i ls h c = TextDecoder_loop be p m s None opts i ls h c"
proof (induction ls arbitrary: i h c)
  case Nil
  show ?case by simp
next
  case (Cons l ls)
  show ?case
    using Cons.IH
    by (auto simp add: layer_mask_unused [of be l h p m s cm] case_prod_unfold)
qed

lemmas ex_defs = ex_ops_def ex_cache_def ex_opts_def ex_sa_def ex_mlp_def ex_ca_def
  ex_self_layer_def ex_cross_layer_def ex_decoder_def ex_model_def

section \<open>The claims\<close>



text \<open>
  Claim C2, as the code has it. \<open>newTextModel\<close> has no failing branch and checks
  nothing: for every configuration it returns a model whose hidden size, head counts and
  cross-attention index list are the configured values, and whose layer \<open>i\<close> is a
  cross-attention layer exactly when \<open>i\<close> occurs in the configured index list.
\<close>

theorem C2_construction_unvalidated:
  "hiddenSize (Options (newTextModel c :: ('t, 'f::one) TextModel)) = ucast (Uint c ''embedding_length'' [])
   \<and> numHeads (Options (newTextModel c :: ('t, 'f) TextModel)) = ucast (Uint c ''attention.head_count'' [])
   \<and> numKVHeads (Options (newTextModel c :: ('t, 'f) TextModel)) = ucast (Uint c ''attention.head_count_kv'' [])
   \<and> crossAttentionLayers (Options (newTextModel c :: ('t, 'f) TextModel)) =
       Uints c ''attention.cross_attention_layers'' []
   \<and> map is_cross_attention_layer (Layers (Transformer (newTextModel c :: ('t, 'f) TextModel))) =
       map (\<lambda>i. word_of_nat i \<in> set (Uints c ''attention.cross_attention_layers'' []))
         [0..<unat (Uint c ''block_count'' [])]"
  by (simp add: newTextModel_def comp_def)

text \<open>The theorem at the worked example.\<close>

theorem C2_construction_unvalidated_witness:
  "hiddenSize (Options (newTextModel ex_config :: (int, int) TextModel)) = 8
   \<and> numHeads (Options (newTextModel ex_config :: (int, int) TextModel)) = 4
   \<and> numKVHeads (Options (newTextModel ex_config :: (int, int) TextModel)) = 2
   \<and> crossAttentionLayers (Options (newTextModel ex_config :: (int, int) TextModel)) = [1]
   \<and> map is_cross_attention_layer (Layers (Transformer (newTextModel ex_config :: (int, int) TextModel)))
       = [False, True]"
  using C2_construction_unvalidated [of ex_config, where ?'t = int]
  by (simp add: ex_config_def upt_rec)

text \<open>
  Claim C2 as the specification states it (construction fails on an invalid geometry or a
  malformed index list) does not hold: from a configuration with hidden size 10, 3 heads,
  2 key/value heads and the index list \<open>[7, 7]\<close> for 2 blocks, construction returns
  a model with exactly these values, whose geometry is not valid.
\<close>

theorem C2_counterexample:
  "Options (newTextModel ex_bad_config :: (int, int) TextModel) =
     \<lparr>RopeFactors = None, hiddenSize = 10, numHeads = 3, numKVHeads = 2, eps = 0,
      ropeBase = 0, ropeScale = 1, ropeDim = 0, crossAttentionLayers = [7, 7]\<rparr>
   \<and> \<not> valid_geometry (Options (newTextModel ex_bad_config :: (int, int) TextModel))"
  by (simp add: newTextModel_def ex_bad_config_def valid_geometry_def)

text \<open>
  Claim C3. In the self-attention unit with \<open>headDim = hiddenSize / numHeads\<close>, the
  scores before the softmax are the product of the permuted cached key and the permuted
  query, scaled by \<open>1/sqrt(headDim)\<close>; a supplied mask is added to them before the
  softmax, and with a nil mask the softmax is applied to the scaled scores themselves and
  the result does not depend on the addition of the backend.
\<close>

theorem C3_self_attention_scores:
  assumes "TextSelfAttention.Query sa = Some wq" and "TextSelfAttention.Key sa = Some wk"
      and "TextSelfAttention.Value sa = Some wv" and "TextSelfAttention.Output sa = Some wo"
      and "int64_div (hiddenSize opts) (numHeads opts) = Some headDim"
      and "Cache_Put cache (self_attention_key be wk opts headDim h pos)
             (self_attention_value be wv opts headDim h) = ((K, V), cache')"
      and "scores = Scale be (Mulmat be (Contiguous be (Permute be K [0, 2, 1, 3]))
                   (Contiguous be (Permute be (self_attention_query be wq opts headDim h pos)
                      [0, 2, 1, 3])))
                 (InvSqrt headDim)"
  shows "TextSelfAttention_Forward be sa h pos (Some m) cache opts =
           Some (attention_output be wo opts h (Softmax be (Add be scores m)) V, cache')
       \<and> TextSelfAttention_Forward be sa h pos None cache opts =
           Some (attention_output be wo opts h (Softmax be scores) V, cache')
       \<and> TextSelfAttention_Forward (be\<lparr>Add := a\<rparr>) sa h pos None cache opts =
           TextSelfAttention_Forward be sa h pos None cache opts"
proof (intro conjI)
  show "TextSelfAttention_Forward be sa h pos (Some m) cache opts =
           Some (attention_output be wo opts h (Softmax be (Add be scores m)) V, cache')"
    using self_attention_unfold [OF assms(1-6), of "Some m"] assms(7)
    by (simp add: attention_scores_def)
  show "TextSelfAttention_Forward be sa h pos None cache opts =
           Some (attention_output be wo opts h (Softmax be scores) V, cache')"
    using self_attention_unfold [OF assms(1-6), of None] assms(7)
    by (simp add: attention_scores_def)
  show "TextSelfAttention_Forward (be\<lparr>Add := a\<rparr>) sa h pos None cache opts =
           TextSelfAttention_Forward be sa h pos None cache opts"
    by (simp add: TextSelfAttention_Forward_def)
qed

text \<open>The theorem at the worked example.\<close>

theorem C3_self_attention_scores_witness:
  "TextSelfAttention_Forward ex_ops ex_sa 5 1 (Some 2) (0, ex_cache) ex_opts =
     Some (6, ex_cache\<lparr>slices := (slices ex_cache)(0 := [(16, 6)])\<rparr>)"
proof -
  have q: "TextSelfAttention.Query ex_sa = Some (\<lambda>t. 2 * t)"
    and k: "TextSelfAttention.Key ex_sa = Some (\<lambda>t. 3 * t)"
    and v: "TextSelfAttention.Value ex_sa = Some (\<lambda>t. t + 1)"
    and out: "TextSelfAttention.Output ex_sa = Some (\<lambda>t. t)"
    by (simp_all add: ex_sa_def)
  have hd: "int64_div (hiddenSize ex_opts) (numHeads ex_opts) = Some 2"
    by (simp add: int64_div_def ex_opts_def)
  have put: "Cache_Put (0, ex_cache) (self_attention_key ex_ops (\<lambda>t. 3 * t) ex_opts 2 5 1)
               (self_attention_value ex_ops (\<lambda>t. t + 1) ex_opts 2 5) =
             ((16, 6), ex_cache\<lparr>slices := (slices ex_cache)(0 := [(16, 6)])\<rparr>)"
    by (simp add: Cache_Put_def self_attention_key_def self_attention_value_def
          ex_ops_def ex_cache_def)
  from C3_self_attention_scores [OF q k v out hd put refl, of 2]
  show ?thesis by (simp add: attention_output_def ex_ops_def)
qed

text \<open>
  Claim C4. The self-attention unit scores with the key and value that \<open>Put\<close>
  returns, and \<open>Put\<close> on the slice of layer \<open>i\<close> changes no other slice. In the
  decoder an executed layer \<open>j\<close> runs on \<open>Sub(j)\<close>; a layer run on \<open>Sub(j)\<close>
  leaves every other slice as it was; and after a pass that returns, a slice that differs
  from its initial state belongs to an executed layer and is the result of one \<open>Put\<close>
  on its own initial state.
\<close>

theorem C4_cache_put_and_slices:
  assumes "TextSelfAttention.Query sa = Some wq" and "TextSelfAttention.Key sa = Some wk"
      and "TextSelfAttention.Value sa = Some wv" and "TextSelfAttention.Output sa = Some wo"
      and "int64_div (hiddenSize opts) (numHeads opts) = Some headDim"
      and "Cache_Put (i, c) (self_attention_key be wk opts headDim h pos)
             (self_attention_value be wv opts headDim h) = ((K, V), c')"
      and "TextDecoder_Forward be d x pos m st cm k opts = Some (x', k')"
  shows "TextSelfAttention_Forward be sa h pos m (i, c) opts =
           Some (attention_output be wo opts h
                   (Softmax be (attention_scores be headDim m
                      (self_attention_query be wq opts headDim h pos) K)) V, c')
       \<and> (\<forall>j. j \<noteq> i \<longrightarrow> slices c' j = slices c j)
       \<and> (\<forall>j < length (Layers d).
            word_of_nat j \<notin> set (crossAttentionLayers opts) \<or> st \<noteq> None \<longrightarrow>
            (\<forall>y k1. TextDecoder_loop be pos m st cm opts j (drop j (Layers d)) y k1 =
               TextDecoderLayer_Forward be (Layers d ! j) y pos m st cm (Cache_Sub k1 j) opts \<bind>
               (\<lambda>(y', k1'). TextDecoder_loop be pos m st cm opts (Suc j)
                               (drop (Suc j) (Layers d)) y' k1')))
       \<and> (\<forall>l j y k1 y' k1'.
            TextDecoderLayer_Forward be l y pos m st cm (Cache_Sub k1 j) opts = Some (y', k1') \<longrightarrow>
            (\<forall>n. n \<noteq> j \<longrightarrow> slices k1' n = slices k1 n))
       \<and> (\<forall>j. slices k' j \<noteq> slices k j \<longrightarrow>
            j < length (Layers d) \<and>
            (word_of_nat j \<notin> set (crossAttentionLayers opts) \<or> st \<noteq> None) \<and>
            (\<exists>key val. slices k' j = snd (PutFn k (slices k j) key val)))"
proof -
  have unit: "TextSelfAttention_Forward be sa h pos m (i, c) opts =
           Some (attention_output be wo opts h
                   (Softmax be (attention_scores be headDim m
                      (self_attention_query be wq opts headDim h pos) K)) V, c')"
    by (rule self_attention_unfold [OF assms(1-6)])
  have own: "\<forall>j. j \<noteq> i \<longrightarrow> slices c' j = slices c j"
    using assms(6) by (auto simp add: Cache_Put_def split: prod.splits)
  have step: "\<forall>j < length (Layers d).
            word_of_nat j \<notin> set (crossAttentionLayers opts) \<or> st \<noteq> None \<longrightarrow>
            (\<forall>y k1. TextDecoder_loop be pos m st cm opts j (drop j (Layers d)) y k1 =
               TextDecoderLayer_Forward be (Layers d ! j) y pos m st cm (Cache_Sub k1 j) opts \<bind>
               (\<lambda>(y', k1'). TextDecoder_loop be pos m st cm opts (Suc j)
                               (drop (Suc j) (Layers d)) y' k1'))"
  proof (intro allI impI)
    fix j y k1
    assume "j < length (Layers d)"
       and "word_of_nat j \<notin> set (crossAttentionLayers opts) \<or> st \<noteq> None"
    moreover from \<open>j < length (Layers d)\<close>
    have "drop j (Layers d) = Layers d ! j # drop (Suc j) (Layers d)"
      by (simp add: Cons_nth_drop_Suc)
    ultimately show "TextDecoder_loop be pos m st cm opts j (drop j (Layers d)) y k1 =
               TextDecoderLayer_Forward be (Layers d ! j) y pos m st cm (Cache_Sub k1 j) opts \<bind>
               (\<lambda>(y', k1'). TextDecoder_loop be pos m st cm opts (Suc j)
                               (drop (Suc j) (Layers d)) y' k1')"
      by auto
  qed
  have frame: "\<forall>l j y k1 y' k1'.
            TextDecoderLayer_Forward be l y pos m st cm (Cache_Sub k1 j) opts = Some (y', k1') \<longrightarrow>
            (\<forall>n. n \<noteq> j \<longrightarrow> slices k1' n = slices k1 n)"
  proof (intro allI impI)
    fix l j y k1 y' k1' n
    assume "TextDecoderLayer_Forward be l y pos m st cm (Cache_Sub k1 j) opts = Some (y', k1')"
       and "n \<noteq> j"
    with layer_cache [of be l y pos m st cm j "k1\<lparr>subs := subs k1 @ [j]\<rparr>" opts y' k1']
    show "slices k1' n = slices k1 n"
      by (auto simp add: Cache_Sub_def)
  qed
  have global: "\<forall>j. slices k' j \<noteq> slices k j \<longrightarrow>
            j < length (Layers d) \<and>
            (word_of_nat j \<notin> set (crossAttentionLayers opts) \<or> st \<noteq> None) \<and>
            (\<exists>key val. slices k' j = snd (PutFn k (slices k j) key val))"
  proof (intro allI impI)
    fix j assume changed: "slices k' j \<noteq> slices k j"
    from assms(7) have "TextDecoder_loop be pos m st cm opts 0 (Layers d) x k = Some (x', k')"
      by (simp add: TextDecoder_Forward_def)
    from loop_slices [OF this] changed
    show "j < length (Layers d) \<and>
            (word_of_nat j \<notin> set (crossAttentionLayers opts) \<or> st \<noteq> None) \<and>
            (\<exists>key val. slices k' j = snd (PutFn k (slices k j) key val))"
      by auto
  qed
  from unit own step frame global show ?thesis by (intro conjI)
qed

text \<open>The theorem at the worked example.\<close>

theorem C4_cache_put_and_slices_witness:
  "TextSelfAttention_Forward ex_ops ex_sa 5 1 None (0, ex_cache) ex_opts =
     Some (6, ex_cache\<lparr>slices := (slices ex_cache)(0 := [(16, 6)])\<rparr>)
   \<and> TextDecoder_Forward ex_ops ex_decoder 5 1 None None None ex_cache ex_opts =
     Some (275, ex_cache\<lparr>subs := [0], slices := (slices ex_cache)(0 := [(16, 6)])\<rparr>)
   \<and> (\<exists>key val. [(16, 6)] = snd (PutFn ex_cache (slices ex_cache 0) key val))"
proof -
  have q: "TextSelfAttention.Query ex_sa = Some (\<lambda>t. 2 * t)"
    and k: "TextSelfAttention.Key ex_sa = Some (\<lambda>t. 3 * t)"
    and v: "TextSelfAttention.Value ex_sa = Some (\<lambda>t. t + 1)"
    and out: "TextSelfAttention.Output ex_sa = Some (\<lambda>t. t)"
    by (simp_all add: ex_sa_def)
  have hd: "int64_div (hiddenSize ex_opts) (numHeads ex_opts) = Some 2"
    by (simp add: int64_div_def ex_opts_def)
  have put: "Cache_Put (0, ex_cache) (self_attention_key ex_ops (\<lambda>t. 3 * t) ex_opts 2 5 1)
               (self_attention_value ex_ops (\<lambda>t. t + 1) ex_opts 2 5) =
             ((16, 6), ex_cache\<lparr>slices := (slices ex_cache)(0 := [(16, 6)])\<rparr>)"
    by (simp add: Cache_Put_def self_attention_key_def self_attention_value_def
          ex_ops_def ex_cache_def)
  have run: "TextDecoder_Forward ex_ops ex_decoder 5 1 None None None ex_cache ex_opts =
     Some (275, ex_cache\<lparr>subs := [0], slices := (slices ex_cache)(0 := [(16, 6)])\<rparr>)"
    by (simp add: TextDecoder_Forward_def TextSelfAttentionDecoderLayer_Forward_def
        TextSelfAttention_Forward_def TextMLP_Forward_def
        Linear_Forward_def RMSNorm_Forward_def int64_div_def Cache_Put_def Cache_Sub_def
        ex_defs)
  note inst = C4_cache_put_and_slices [OF q k v out hd put run]
  from inst [THEN conjunct1]
  have unit: "TextSelfAttention_Forward ex_ops ex_sa 5 1 None (0, ex_cache) ex_opts =
     Some (6, ex_cache\<lparr>slices := (slices ex_cache)(0 := [(16, 6)])\<rparr>)"
    by (simp add: attention_output_def ex_ops_def)
  have changed: "slices (ex_cache\<lparr>subs := [0], slices := (slices ex_cache)(0 := [(16, 6)])\<rparr>) 0
                 \<noteq> slices ex_cache 0"
    by (simp add: ex_cache_def)
  from inst [THEN conjunct2, THEN conjunct2, THEN conjunct2, THEN conjunct2, rule_format,
             OF changed]
  have "\<exists>key val. slices (ex_cache\<lparr>subs := [0], slices := (slices ex_cache)(0 := [(16, 6)])\<rparr>) 0
          = snd (PutFn ex_cache (slices ex_cache 0) key val)"
    by blast
  then have "\<exists>key val. [(16, 6)] = snd (PutFn ex_cache (slices ex_cache 0) key val)"
    by simp
  with unit run show ?thesis by blast
qed

text \<open>
  Claim C5. The cross-attention unit normalises the reshaped query and key projections,
  scores them with no mask term, and takes key and value from the cross-modal tensor of the
  call. Its result does not depend on the rotary embedding or the addition of the backend,
  nor on the cache it is given, and the cross-attention layer returns the cache it received.
\<close>

theorem C5_cross_attention_unit:
  assumes "QueryNorm ca = Some nq" and "TextCrossAttention.Query ca = Some wq"
      and "KeyNorm ca = Some nk" and "TextCrossAttention.Key ca = Some wk"
      and "TextCrossAttention.Value ca = Some wv" and "TextCrossAttention.Output ca = Some wo"
      and "int64_div (hiddenSize opts) (numHeads opts) = Some headDim"
      and "query = nq (Reshape be (wq h) [headDim, numHeads opts, Dim be h 1]) (eps opts)"
      and "key = nk (Reshape be (wk s) [headDim, numKVHeads opts, Dim be s 1 * Dim be s 2])
                   (eps opts)"
      and "val = Reshape be (wv s) [headDim, numKVHeads opts, Dim be s 1 * Dim be s 2]"
  shows "TextCrossAttention_Forward be ca h (Some s) cache opts =
           Some (attention_output be wo opts h
                   (Softmax be
                      (Scale be (Mulmat be (Contiguous be (Permute be key [0, 2, 1, 3]))
                                           (Contiguous be (Permute be query [0, 2, 1, 3])))
                         (InvSqrt headDim)))
                   val)
       \<and> TextCrossAttention_Forward (be\<lparr>Rope := rope', Add := add'\<rparr>) ca h (Some s) cache opts =
           TextCrossAttention_Forward be ca h (Some s) cache opts
       \<and> TextCrossAttention_Forward be ca h (Some s) cache2 opts =
           TextCrossAttention_Forward be ca h (Some s) cache opts
       \<and> (\<forall>d x u1 u2 cm y c'.
            TextCrossAttentionDecoderLayer_Forward be d x u1 u2 (Some s) cm cache opts = Some (y, c')
            \<longrightarrow> c' = snd cache)"
proof (intro conjI allI impI)
  show "TextCrossAttention_Forward be ca h (Some s) cache opts =
           Some (attention_output be wo opts h
                   (Softmax be
                      (Scale be (Mulmat be (Contiguous be (Permute be key [0, 2, 1, 3]))
                                           (Contiguous be (Permute be query [0, 2, 1, 3])))
                         (InvSqrt headDim)))
                   val)"
    using assms
    by (simp add: TextCrossAttention_Forward_def Linear_Forward_Some RMSNorm_Forward_Some
          attention_output_def Let_def)
next
  show "TextCrossAttention_Forward (be\<lparr>Rope := rope', Add := add'\<rparr>) ca h (Some s) cache opts =
           TextCrossAttention_Forward be ca h (Some s) cache opts"
    by (simp add: TextCrossAttention_Forward_def)
next
  show "TextCrossAttention_Forward be ca h (Some s) cache2 opts =
           TextCrossAttention_Forward be ca h (Some s) cache opts"
    by (simp add: TextCrossAttention_Forward_def)
next
  fix d x u1 u2 cm y c'
  assume "TextCrossAttentionDecoderLayer_Forward be d x u1 u2 (Some s) cm cache opts = Some (y, c')"
  then show "c' = snd cache"
    by (auto simp add: TextCrossAttentionDecoderLayer_Forward_def Let_def
          split: Option.bind_splits)
qed

text \<open>The theorem at the worked example.\<close>

theorem C5_cross_attention_unit_witness:
  "TextCrossAttention_Forward ex_ops ex_ca 5 (Some 3) (1, ex_cache) ex_opts = Some 4"
proof -
  have nq: "QueryNorm ex_ca = Some (\<lambda>t e. t)"
    and q: "TextCrossAttention.Query ex_ca = Some (\<lambda>t. 2 * t)"
    and nk: "KeyNorm ex_ca = Some (\<lambda>t e. t)"
    and k: "TextCrossAttention.Key ex_ca = Some (\<lambda>t. 3 * t)"
    and v: "TextCrossAttention.Value ex_ca = Some (\<lambda>t. t + 1)"
    and out: "TextCrossAttention.Output ex_ca = Some (\<lambda>t. t)"
    by (simp_all add: ex_ca_def)
  have hd: "int64_div (hiddenSize ex_opts) (numHeads ex_opts) = Some 2"
    by (simp add: int64_div_def ex_opts_def)
  from C5_cross_attention_unit [OF nq q nk k v out hd refl refl refl, THEN conjunct1,
         of ex_ops 5 3 "(1, ex_cache)"]
  show ?thesis by (simp add: attention_output_def ex_ops_def)
qed



text \<open>
  Claim C7. The self-attention decoder layer returns
  \<open>mlp(norm(a + h)) + (a + h)\<close> with \<open>a = attention(norm(h))\<close>, computed with the
  cache; neither sublayer output is gated: the result does not depend on \<open>tanh\<close>.
\<close>

theorem C7_self_attention_layer:
  assumes "TextSelfAttentionDecoderLayer.AttentionNorm d = Some n1"
      and "SelfAttention d = Some sa"
      and "TextSelfAttentionDecoderLayer.MLPNorm d = Some n2"
      and "TextSelfAttentionDecoderLayer.MLP d = Some mlp"
      and "TextSelfAttention_Forward be sa (n1 h (eps opts)) pos m cache opts = Some (a, cache')"
      and "r = Add be a h"
      and "TextMLP_Forward be mlp (n2 r (eps opts)) opts = Some b"
  shows "TextSelfAttentionDecoderLayer_Forward be d h pos m u1 u2 cache opts =
           Some (Add be b r, cache')
       \<and> TextSelfAttentionDecoderLayer_Forward (be\<lparr>Tanh := t\<rparr>) d h pos m u1 u2 cache opts =
           TextSelfAttentionDecoderLayer_Forward be d h pos m u1 u2 cache opts"
proof
  show "TextSelfAttentionDecoderLayer_Forward be d h pos m u1 u2 cache opts =
           Some (Add be b r, cache')"
    using assms
    by (simp add: TextSelfAttentionDecoderLayer_Forward_def RMSNorm_Forward_Some Let_def)
  show "TextSelfAttentionDecoderLayer_Forward (be\<lparr>Tanh := t\<rparr>) d h pos m u1 u2 cache opts =
           TextSelfAttentionDecoderLayer_Forward be d h pos m u1 u2 cache opts"
    by (simp add: TextSelfAttentionDecoderLayer_Forward_def self_attention_Tanh_unused
          mlp_Tanh_unused)
qed

text \<open>The theorem at the worked example.\<close>

theorem C7_self_attention_layer_witness:
  "TextSelfAttentionDecoderLayer_Forward ex_ops ex_self_layer 5 1 None None None
     (0, ex_cache) ex_opts =
     Some (275, ex_cache\<lparr>slices := (slices ex_cache)(0 := [(16, 6)])\<rparr>)"
proof -
  have n1: "TextSelfAttentionDecoderLayer.AttentionNorm ex_self_layer = Some (\<lambda>t e. t)"
    and sa: "SelfAttention ex_self_layer = Some ex_sa"
    and n2: "TextSelfAttentionDecoderLayer.MLPNorm ex_self_layer = Some (\<lambda>t e. t)"
    and mlp: "TextSelfAttentionDecoderLayer.MLP ex_self_layer = Some ex_mlp"
    by (simp_all add: ex_self_layer_def)
  have a: "TextSelfAttention_Forward ex_ops ex_sa 5 1 None (0, ex_cache) ex_opts =
             Some (6, ex_cache\<lparr>slices := (slices ex_cache)(0 := [(16, 6)])\<rparr>)"
    by (simp add: TextSelfAttention_Forward_def Linear_Forward_def int64_div_def Cache_Put_def
          ex_ops_def ex_cache_def ex_opts_def ex_sa_def)
  have r: "(11 :: int) = Add ex_ops 6 5"
    by (simp add: ex_ops_def)
  have b: "TextMLP_Forward ex_ops ex_mlp 11 ex_opts = Some 264"
    by (simp add: TextMLP_Forward_def Linear_Forward_def ex_ops_def ex_mlp_def)
  from C7_self_attention_layer [OF n1 sa n2 mlp a r b,
         where ?u1.0 = None and ?u2.0 = None]
  show ?thesis by (simp add: ex_ops_def)
qed

text \<open>
  Claim C8. The query is reshaped to \<open>(headDim, numHeads, batch)\<close>, key and value to
  \<open>(headDim, numKVHeads, batch)\<close>; query and key receive the rotary embedding with the
  same positions, factors, dimension, base and scale, the value receives none; the key and
  value so obtained are what is put into the cache.
\<close>

theorem C8_reshape_and_rope:
  assumes "TextSelfAttention.Query sa = Some wq" and "TextSelfAttention.Key sa = Some wk"
      and "TextSelfAttention.Value sa = Some wv" and "TextSelfAttention.Output sa = Some wo"
      and "int64_div (hiddenSize opts) (numHeads opts) = Some headDim"
      and "query = Rope be (Reshape be (wq h) [headDim, numHeads opts, Dim be h 1])
                     pos (RopeFactors opts) (ropeDim opts) (ropeBase opts) (ropeScale opts)"
      and "key = Rope be (Reshape be (wk h) [headDim, numKVHeads opts, Dim be h 1])
                     pos (RopeFactors opts) (ropeDim opts) (ropeBase opts) (ropeScale opts)"
      and "val = Reshape be (wv h) [headDim, numKVHeads opts, Dim be h 1]"
      and "Cache_Put cache key val = ((K, V), cache')"
  shows "TextSelfAttention_Forward be sa h pos m cache opts =
           Some (attention_output be wo opts h
                   (Softmax be (attention_scores be headDim m query K)) V, cache')"
  using assms
  by (simp add: self_attention_unfold [of sa wq wk wv wo opts headDim cache be h pos K V cache' m]
        self_attention_key_def self_attention_value_def self_attention_query_def)

text \<open>The theorem at the worked example.\<close>

theorem C8_reshape_and_rope_witness:
  "TextSelfAttention_Forward ex_ops ex_sa 5 1 None (0, ex_cache) ex_opts =
     Some (6, ex_cache\<lparr>slices := (slices ex_cache)(0 := [(16, 6)])\<rparr>)"
proof -
  have q: "TextSelfAttention.Query ex_sa = Some (\<lambda>t. 2 * t)"
    and k: "TextSelfAttention.Key ex_sa = Some (\<lambda>t. 3 * t)"
    and v: "TextSelfAttention.Value ex_sa = Some (\<lambda>t. t + 1)"
    and out: "TextSelfAttention.Output ex_sa = Some (\<lambda>t. t)"
    by (simp_all add: ex_sa_def)
  have hd: "int64_div (hiddenSize ex_opts) (numHeads ex_opts) = Some 2"
    by (simp add: int64_div_def ex_opts_def)
  have qv: "(11 :: int) = Rope ex_ops (Reshape ex_ops (2 * 5) [2, numHeads ex_opts, Dim ex_ops 5 1])
              1 (RopeFactors ex_opts) (ropeDim ex_opts) (ropeBase ex_opts) (ropeScale ex_opts)"
    and kv: "(16 :: int) = Rope ex_ops (Reshape ex_ops (3 * 5) [2, numKVHeads ex_opts, Dim ex_ops 5 1])
              1 (RopeFactors ex_opts) (ropeDim ex_opts) (ropeBase ex_opts) (ropeScale ex_opts)"
    and vv: "(6 :: int) = Reshape ex_ops (5 + 1) [2, numKVHeads ex_opts, Dim ex_ops 5 1]"
    by (simp_all add: ex_ops_def)
  have put: "Cache_Put (0, ex_cache) 16 6 =
             ((16, 6), ex_cache\<lparr>slices := (slices ex_cache)(0 := [(16, 6)])\<rparr>)"
    by (simp add: Cache_Put_def ex_cache_def)
  from C8_reshape_and_rope [OF q k v out hd qv kv vv put, of None]
  show ?thesis by (simp add: attention_output_def ex_ops_def)
qed

text \<open>
  Claim C9. With its three projections loaded, the feed-forward unit returns
  \<open>down(silu(gate(x)) * up(x))\<close>; the options, and with them the epsilon of any
  normalisation, play no part in the result.
\<close>

theorem C9_gated_feed_forward:
  assumes "Gate mlp = Some gate" and "Up mlp = Some up" and "Down mlp = Some down"
  shows "TextMLP_Forward be mlp x opts = Some (down (Mul be (SILU be (gate x)) (up x)))
         \<and> TextMLP_Forward be mlp x opts' = TextMLP_Forward be mlp x opts"
  using assms by (simp add: TextMLP_Forward_def Linear_Forward_Some)

text \<open>The theorem at the worked example.\<close>

theorem C9_gated_feed_forward_witness: "TextMLP_Forward ex_ops ex_mlp 5 ex_opts = Some 60"
  using C9_gated_feed_forward [of ex_mlp "\<lambda>t. t" "\<lambda>t. t + 1" "\<lambda>t. 2 * t" ex_ops 5 ex_opts]
  by (simp add: ex_mlp_def ex_ops_def)

text \<open>
  Claim C10. Two forward calls of the text model that differ only in the cross-attention
  mask return the same logits and the same cache.
\<close>

theorem C10_cross_attention_mask_unused:
  "TextModel_Forward be m inputIDs positionIDs mask' crossAttentionStates cm1 cache
   = TextModel_Forward be m inputIDs positionIDs mask' crossAttentionStates cm2 cache"
  by (simp add: TextModel_Forward_def TextDecoder_Forward_def
        loop_mask_unused [of be positionIDs mask' crossAttentionStates cm1]
        loop_mask_unused [of be positionIDs mask' crossAttentionStates cm2])

text \<open>The theorem at the worked example.\<close>

theorem C10_cross_attention_mask_unused_witness:
  "TextModel_Forward ex_ops ex_model 5 1 None (Some 3) (Some 7) ex_cache =
   TextModel_Forward ex_ops ex_model 5 1 None (Some 3) None ex_cache"
  by (rule C10_cross_attention_mask_unused)

end
